theory Spec2Isabelle
  imports Complex_Main
begin

section \<open>The tile card (hui-tile-card.ts)\<close>

subsection \<open>Data\<close>

text \<open>
  An optional own property of a configuration object. The object spread of
  \<open>setConfig\<close> copies every own property of the user's object, also one whose value is
  \<open>undefined\<close>, so a missing key (\<open>Absent\<close>) is kept apart from a key that is there
  (\<open>Present\<close>, holding \<open>None\<close> for \<open>undefined\<close>).
\<close>

datatype 'a own_property = Absent | Present "'a option"

text \<open>Reading a property gives \<open>undefined\<close> for a missing key.\<close>

fun read :: "'a own_property \<Rightarrow> 'a option" where
  "read Absent = None"
| "read (Present v) = v"

record ActionConfig =
  action :: string

record LovelaceCardFeatureConfig =
  feature_type :: string

text \<open>
  \<open>TileCardConfig\<close>, field by field as the card reads it. \<open>entity\<close> is typed
  \<open>string\<close>, but a configuration arrives from the dashboard's storage and the key can
  be missing, which is what \<open>setConfig\<close> checks; \<open>None\<close> is that case.
\<close>

record TileCardConfig =
  entity :: "string option"
  name :: "string option"
  hide_state :: "bool option"
  state_content :: "string list option"
  icon :: "string option"
  color :: "string option"
  show_entity_picture :: "bool option"
  vertical :: "bool option"
  tap_action :: "ActionConfig own_property"
  hold_action :: "ActionConfig option"
  double_tap_action :: "ActionConfig option"
  icon_tap_action :: "ActionConfig own_property"
  features :: "LovelaceCardFeatureConfig list option"

record HassEntityAttributes =
  friendly_name :: "string option"
  rgb_color :: "(rat \<times> rat \<times> rat) option"
  entity_picture :: "string option"
  entity_picture_local :: "string option"

record HassEntity =
  entity_id :: string
  state :: string
  attributes :: HassEntityAttributes

record HomeAssistant =
  states :: "string \<rightharpoonup> HassEntity"
  localize :: "string \<Rightarrow> string"
  hassUrl :: "string \<Rightarrow> string"

text \<open>JavaScript truthiness of an optional string and of an optional boolean.\<close>

fun truthy_string :: "string option \<Rightarrow> bool" where
  "truthy_string None = False"
| "truthy_string (Some s) = (s \<noteq> [])"

fun truthy_bool :: "bool option \<Rightarrow> bool" where
  "truthy_bool None = False"
| "truthy_bool (Some b) = b"

subsection \<open>Rendered output\<close>

text \<open>
  What a lit template renders: elements with their bindings (attributes, properties
  written \<open>.name\<close>, event handlers written \<open>@name\<close>) and children. A binding that
  \<open>ifDefined\<close> leaves out is not in the list.
\<close>

datatype binding =
    Literal string
  | Flag bool
  | Handler string
  | ActionHandler bool bool
  | Entity HassEntity
  | Content template
  | StateContent "string list option"
  | Features "LovelaceCardFeatureConfig list"
  | OptionalString "string option"
  | Classes "string list"
  | Style "(string \<times> string option) list"
  | HassObject
and template =
    Nothing
  | Element string "(string \<times> binding) list" "template list"

fun bindings :: "template \<Rightarrow> (string \<times> binding) list"
  and bindings_list :: "template list \<Rightarrow> (string \<times> binding) list"
  and bindings_in :: "(string \<times> binding) list \<Rightarrow> (string \<times> binding) list"
  and binding_content :: "binding \<Rightarrow> (string \<times> binding) list"
where
  "bindings Nothing = []"
| "bindings (Element tag bs cs) = bs @ bindings_in bs @ bindings_list cs"
| "bindings_list [] = []"
| "bindings_list (t # ts) = bindings t @ bindings_list ts"
| "bindings_in [] = []"
| "bindings_in (b # bs) = binding_content (snd b) @ bindings_in bs"
| "binding_content (Content t) = bindings t"
| "binding_content (Literal s) = []"
| "binding_content (Flag b) = []"
| "binding_content (Handler h) = []"
| "binding_content (ActionHandler h d) = []"
| "binding_content (Entity e) = []"
| "binding_content (StateContent c) = []"
| "binding_content (Features f) = []"
| "binding_content (OptionalString i) = []"
| "binding_content (Classes c) = []"
| "binding_content (Style c) = []"
| "binding_content HassObject = []"



subsection \<open>Imported helpers\<close>

text \<open>
  The functions and the table the card imports from other modules. Their code is not part
  of the two files at hand, so the card is modelled over any implementation of them.
  Colour conversions work on JavaScript numbers; the triples are rationals, which hold
  every finite double exactly.
\<close>

record tile_deps =
  DOMAINS_TOGGLE :: "string set"
  computeDomain :: "string \<Rightarrow> string"
  stateActive :: "HassEntity \<Rightarrow> bool"
  computeCssColor :: "string \<Rightarrow> string"
  rgb2hsv :: "rat \<times> rat \<times> rat \<Rightarrow> rat \<times> rat \<times> rat"
  hsv2rgb :: "rat \<times> rat \<times> rat \<Rightarrow> rat \<times> rat \<times> rat"
  rgb2hex :: "rat \<times> rat \<times> rat \<Rightarrow> string"
  stateColorCss :: "HassEntity \<Rightarrow> string option"
  hasAction :: "ActionConfig option \<Rightarrow> bool"
  cameraUrlWithWidthHeight :: "string \<Rightarrow> nat \<Rightarrow> nat \<Rightarrow> string"
  renderTileBadge :: "HassEntity \<Rightarrow> HomeAssistant \<Rightarrow> template"

subsection \<open>The card\<close>

record HuiTileCard =
  tile_hass :: "HomeAssistant option"
  tile_config :: "TileCardConfig option"

definition getEntityDefaultTileIconAction :: "tile_deps \<Rightarrow> string \<Rightarrow> string" where
  "getEntityDefaultTileIconAction d entityId =
     (let domain = computeDomain d entityId;
          supportsIconAction =
            (domain \<in> DOMAINS_TOGGLE d \<or> domain \<in> set [''button'', ''input_button'', ''scene''])
      in if supportsIconAction then ''toggle'' else ''more-info'')"

text \<open>
  \<open>{ tap_action: d, ...config }\<close> for one key: the user's own property wins whenever the
  key is there, whatever it holds.
\<close>

fun spread_over :: "'a \<Rightarrow> 'a own_property \<Rightarrow> 'a own_property" where
  "spread_over d Absent = Present (Some d)"
| "spread_over d (Present v) = Present v"

definition setConfig :: "tile_deps \<Rightarrow> TileCardConfig \<Rightarrow> HuiTileCard \<Rightarrow> string + HuiTileCard" where
  "setConfig d config this =
     (case entity config of
        None \<Rightarrow> Inl ''Specify an entity''
      | Some e \<Rightarrow>
          if e = [] then Inl ''Specify an entity''
          else Inr (this\<lparr>tile_config := Some (config
                 \<lparr>tap_action := spread_over \<lparr>action = ''more-info''\<rparr> (tap_action config),
                  icon_tap_action :=
                    spread_over \<lparr>action = getEntityDefaultTileIconAction d e\<rparr>
                      (icon_tap_action config)\<rparr>)\<rparr>))"

text \<open>\<open>this._config?.features?.length || 0\<close>\<close>

definition features_length :: "TileCardConfig option \<Rightarrow> nat" where
  "features_length c =
     (case c of None \<Rightarrow> 0
      | Some cfg \<Rightarrow> (case features cfg of None \<Rightarrow> 0 | Some fs \<Rightarrow> length fs))"

definition config_vertical :: "TileCardConfig option \<Rightarrow> bool" where
  "config_vertical c = (case c of None \<Rightarrow> False | Some cfg \<Rightarrow> truthy_bool (vertical cfg))"

definition tile_getCardSize :: "HuiTileCard \<Rightarrow> nat" where
  "tile_getCardSize this =
     1 + (if config_vertical (tile_config this) then 1 else 0) + features_length (tile_config this)"

definition tile_getLayoutOptions :: "HuiTileCard \<Rightarrow> string \<rightharpoonup> nat" where
  "tile_getLayoutOptions this =
     (let grid_columns = 2;
          grid_rows = 1 + features_length (tile_config this);
          grid_rows' = (if config_vertical (tile_config this) then grid_rows + 1 else grid_rows);
          grid_min_columns = (if config_vertical (tile_config this) then 1 else 2)
      in [''grid_columns'' \<mapsto> grid_columns, ''grid_rows'' \<mapsto> grid_rows',
          ''grid_min_rows'' \<mapsto> grid_rows', ''grid_min_columns'' \<mapsto> grid_min_columns])"

definition getImageUrl :: "tile_deps \<Rightarrow> HomeAssistant \<Rightarrow> HassEntity \<Rightarrow> string option" where
  "getImageUrl d hass stateObj =
     (let entityPicture =
            (if truthy_string (entity_picture_local (attributes stateObj))
             then entity_picture_local (attributes stateObj)
             else entity_picture (attributes stateObj))
      in case entityPicture of
           None \<Rightarrow> None
         | Some p \<Rightarrow>
             if p = [] then None
             else let imageUrl = hassUrl hass p
                  in if computeDomain d (entity_id stateObj) = ''camera''
                     then Some (cameraUrlWithWidthHeight d imageUrl 80 80)
                     else Some imageUrl)"

text \<open>
  The contrast correction of a light's colour, on the hue, saturation and value that
  \<open>rgb2hsv\<close> returned.
\<close>

fun contrast :: "rat \<times> rat \<times> rat \<Rightarrow> rat \<times> rat \<times> rat" where
  "contrast (h, s, v) =
     (if s < 4 / 10 then (if s < 1 / 10 then (h, s, 225) else (h, 4 / 10, v)) else (h, s, v))"

text \<open>
  \<open>_computeStateColor\<close>. The source wraps it in \<open>memoizeOne\<close>, which returns the last
  result when the arguments are the same as at the last call; the function reads nothing
  but its arguments, so the cache does not change what it returns.
\<close>

definition computeStateColor :: "tile_deps \<Rightarrow> HassEntity \<Rightarrow> string option \<Rightarrow> string option" where
  "computeStateColor d stateObj custom =
     (case (if truthy_string custom then custom else None) of
        Some c \<Rightarrow> (if stateActive d stateObj then Some (computeCssColor d c) else None)
      | None \<Rightarrow>
          if computeDomain d (entity_id stateObj) = ''person''
             \<or> computeDomain d (entity_id stateObj) = ''device_tracker''
          then None
          else (case (if computeDomain d (entity_id stateObj) = ''light''
                      then rgb_color (attributes stateObj) else None) of
                  Some rgb \<Rightarrow> Some (rgb2hex d (hsv2rgb d (contrast (rgb2hsv d rgb))))
                | None \<Rightarrow> stateColorCss d stateObj))"

definition hasCardAction :: "tile_deps \<Rightarrow> TileCardConfig \<Rightarrow> bool" where
  "hasCardAction d config =
     (read (tap_action config) = None
      \<or> hasAction d (read (tap_action config))
      \<or> hasAction d (hold_action config)
      \<or> hasAction d (double_tap_action config))"

definition hasIconAction :: "tile_deps \<Rightarrow> TileCardConfig \<Rightarrow> bool" where
  "hasIconAction d config =
     (read (icon_tap_action config) = None \<or> hasAction d (read (icon_tap_action config)))"

definition DOMAIN_IMAGE_STYLE :: "string \<rightharpoonup> string" where
  "DOMAIN_IMAGE_STYLE = [''update'' \<mapsto> ''square'', ''media_player'' \<mapsto> ''rounded-square'']"

definition contentClasses :: "TileCardConfig \<Rightarrow> string list" where
  "contentClasses config = ''content'' # (if truthy_bool (vertical config) then [''vertical''] else [])"

text \<open>\<open>role\<close> and \<open>tabindex\<close> under \<open>ifDefined\<close>: there only when the action exists.\<close>

definition button_role :: "bool \<Rightarrow> (string \<times> binding) list" where
  "button_role has = (if has then [(''role'', Literal ''button''), (''tabindex'', Literal ''0'')] else [])"


definition tile :: "tile_deps \<Rightarrow> HomeAssistant \<Rightarrow> TileCardConfig \<Rightarrow> HassEntity \<Rightarrow> template" where
  "tile d hass config stateObj =
     (let name' = (if truthy_string (name config) then name config
                   else friendly_name (attributes stateObj));
          active = stateActive d stateObj;
          color' = computeStateColor d stateObj (color config);
          domain = computeDomain d (entity_id stateObj);
          localizedState =
            (if truthy_bool (hide_state config) then Nothing
             else Element ''state-display''
                    [(''.stateObj'', Entity stateObj), (''.hass'', HassObject),
                     (''.content'', StateContent (state_content config))] []);
          imageUrl = (if truthy_bool (show_entity_picture config)
                      then getImageUrl d hass stateObj else None)
      in Element ''ha-card''
           [(''style'', Style [(''--tile-color'', color')]),
            (''class'', Classes (if active then [''active''] else []))]
           [Element ''div''
              ([(''class'', Classes [''background'']),
                (''@action'', Handler ''_handleAction''),
                (''.actionHandler'',
                   ActionHandler (hasAction d (hold_action config))
                     (hasAction d (double_tap_action config)))]
               @ button_role (hasCardAction d config)
               @ [(''aria-labelledby'', Literal ''info'')])
              [Element ''ha-ripple'' [(''.disabled'', Flag (\<not> hasCardAction d config))] []],
            Element ''div'' [(''class'', Classes [''container''])]
              [Element ''div'' [(''class'', Classes (contentClasses config))]
                 [Element ''div''
                    ([(''class'', Classes [''icon-container''])]
                     @ button_role (hasIconAction d config)
                     @ [(''@action'', Handler ''_handleIconAction''),
                        (''.actionHandler'', ActionHandler False False)])
                    [(if truthy_string imageUrl
                      then Element ''ha-tile-image''
                             [(''.imageStyle'',
                                 Literal (case DOMAIN_IMAGE_STYLE domain of
                                            Some st \<Rightarrow> st | None \<Rightarrow> ''circle'')),
                              (''.imageUrl'', OptionalString imageUrl)] []
                      else Element ''ha-tile-icon''
                             [(''data-domain'', Literal domain),
                              (''data-state'', Literal (state stateObj))]
                             [Element ''ha-state-icon''
                                [(''.icon'', OptionalString (icon config)),
                                 (''.stateObj'', Entity stateObj),
                                 (''.hass'', HassObject)] []]),
                     renderTileBadge d stateObj hass],
                  Element ''ha-tile-info''
                    [(''id'', Literal ''info''), (''.primary'', OptionalString name'),
                     (''.secondary'', Content localizedState)] []],
               (case features config of
                  Some fs \<Rightarrow>
                    Element ''hui-card-features''
                      [(''.hass'', HassObject), (''.stateObj'', Entity stateObj),
                       (''.color'', OptionalString (color config)), (''.features'', Features fs)] []
                | None \<Rightarrow> Nothing)]])"


section \<open>The card host (hui-card.ts)\<close>

subsection \<open>Data\<close>

text \<open>
  A call either returns or throws; both leave a state behind, since what a method
  assigned before it threw stays assigned.
\<close>

datatype 'a outcome = Returns 'a | Throws string 'a

fun state_of :: "'a outcome \<Rightarrow> 'a" where
  "state_of (Returns s) = s"
| "state_of (Throws m s) = s"

fun returns :: "'a outcome \<Rightarrow> bool" where
  "returns (Returns s) = True"
| "returns (Throws m s) = False"

text \<open>Statements in sequence: the first throw ends the run.\<close>

fun sequence :: "('s \<Rightarrow> 's outcome) list \<Rightarrow> 's \<Rightarrow> 's outcome" where
  "sequence [] s = Returns s"
| "sequence (f # fs) s = (case f s of Returns s' \<Rightarrow> sequence fs s' | Throws m s' \<Rightarrow> Throws m s')"

text \<open>\<open>try { body } catch (e) { handler(e.message) }\<close>\<close>

definition try_catch :: "('s \<Rightarrow> 's outcome) \<Rightarrow> (string \<Rightarrow> 's \<Rightarrow> 's outcome) \<Rightarrow> 's \<Rightarrow> 's outcome" where
  "try_catch body handler s = (case body s of Returns s' \<Rightarrow> Returns s' | Throws m s' \<Rightarrow> handler m s')"

text \<open>A value of \<open>LovelaceLayoutOptions\<close>: a number of cells, or a keyword such as \<open>full\<close>.\<close>

datatype grid_value = Undefined | Cells nat | Keyword string

type_synonym LovelaceLayoutOptions = "string \<rightharpoonup> grid_value"

record Condition =
  condition :: string
  media_query :: "string option"
  detail :: "(string \<times> string) list"

text \<open>
  Configurations are compared with \<open>!==\<close>, that is as objects, so each carries its
  identity: \<open>Given\<close> for an object handed to the host, \<open>Made\<close> for one the host creates.
\<close>

datatype identity = Given nat | Made nat

record LovelaceCardConfig =
  object_id :: identity
  card_type :: string
  visibility :: "Condition list option"
  layout_options :: "LovelaceLayoutOptions option"
  other :: "(string \<times> string) list"

text \<open>
  The child element: the DOM node it is, the state of the concrete card behind it (of any
  type \<open>'e\<close>), and the two one-shot listeners the host puts on it (\<open>ll_rebuild\<close> holds the
  configuration its listener closed over).
\<close>

record 'e LovelaceCard =
  node :: nat
  card :: 'e
  ll_upgrade :: bool
  ll_rebuild :: "LovelaceCardConfig option"

datatype event = card_visibility_changed bool | card_updated

text \<open>
  A media-query listener registered with the window: its handle, the query, and the
  \<open>hasOnlyMediaQuery\<close> its callback closed over.
\<close>

record subscription =
  handle :: nat
  query :: string
  hasOnlyMediaQuery :: bool

text \<open>
  The host: its reactive properties, its private fields, what the DOM holds of it (the
  \<open>hidden\<close> attribute, the \<open>display\<close> style, its child nodes), and the part of the world it
  acts on: the events it has fired, the media-query listeners registered with the window,
  and the number of objects created so far, from which a new object takes its identity.
\<close>

record 'e HuiCard =
  preview :: bool
  isPanel :: bool
  config :: "LovelaceCardConfig option"
  hass :: "HomeAssistant option"
  layout :: "string option"
  elementConfig :: "LovelaceCardConfig option"
  element :: "'e LovelaceCard option"
  listeners :: "nat list"
  hidden :: bool
  display :: string
  childNodes :: "nat list"
  fired :: "event list"
  subscriptions :: "subscription list"
  allocated :: nat

subsection \<open>Imported helpers and the child's own code\<close>

text \<open>
  What the host calls and does not define: the element factory, the methods and property
  setters of the concrete card, the condition evaluator and the attachment of media-query
  listeners. The host is modelled over any implementation of them. The source guards the
  \<open>hass\<close> and \<open>preview\<close> setters with \<open>try\<close>, and a card's \<open>setConfig\<close> throws on a
  configuration it rejects (the tile card's does), so these may throw here; \<open>layout\<close> and \<open>isPanel\<close> are plain property stores.
  \<open>attachConditionMediaQueriesListeners\<close> gives the media queries it registers a listener
  for, one unsubscribe function each.
\<close>

record 'e host_deps =
  createCardElement :: "LovelaceCardConfig \<Rightarrow> 'e"
  element_setConfig :: "'e \<Rightarrow> LovelaceCardConfig \<Rightarrow> 'e outcome"
  set_hass :: "'e \<Rightarrow> HomeAssistant \<Rightarrow> 'e outcome"
  set_layout :: "'e \<Rightarrow> string option \<Rightarrow> 'e"
  set_preview :: "'e \<Rightarrow> bool \<Rightarrow> 'e outcome"
  set_editMode :: "'e \<Rightarrow> bool \<Rightarrow> 'e outcome"
  set_isPanel :: "'e \<Rightarrow> bool \<Rightarrow> 'e"
  element_hidden :: "'e \<Rightarrow> bool"
  element_getLayoutOptions :: "'e \<Rightarrow> LovelaceLayoutOptions option"
  computeCardSize :: "'e \<Rightarrow> nat"
  checkConditionsMet :: "Condition list \<Rightarrow> HomeAssistant \<Rightarrow> bool"
  attachConditionMediaQueriesListeners :: "Condition list \<Rightarrow> string list"

text \<open>
  Modelled from the spec: \<open>createErrorCardConfig\<close> (create-element-base.ts) is not among
  the files at hand. The spec has the host replace the child "with an error-display
  instance carrying the failure message": the configuration of the error card, of type
  \<open>error\<close>, with the message under \<open>error\<close>.
\<close>

definition createErrorCardConfig :: "string \<Rightarrow> identity \<Rightarrow> LovelaceCardConfig" where
  "createErrorCardConfig message i =
     \<lparr>object_id = i, card_type = ''error'', visibility = None, layout_options = None,
      other = [(''error'', message)]\<rparr>"

subsection \<open>The host's methods\<close>

text \<open>Applying one of the child's setters or methods to \<open>this._element\<close>.\<close>

definition on_element :: "('e \<Rightarrow> 'e outcome) \<Rightarrow> 'e HuiCard \<Rightarrow> 'e HuiCard outcome" where
  "on_element f this =
     (case element this of
        None \<Rightarrow> Returns this
      | Some el \<Rightarrow>
          (case f (card el) of
             Returns c \<Rightarrow> Returns (this\<lparr>element := Some (el\<lparr>card := c\<rparr>)\<rparr>)
           | Throws m c \<Rightarrow> Throws m (this\<lparr>element := Some (el\<lparr>card := c\<rparr>)\<rparr>)))"

definition fireEvent :: "event \<Rightarrow> 'e HuiCard \<Rightarrow> 'e HuiCard" where
  "fireEvent ev this = this\<lparr>fired := fired this @ [ev]\<rparr>"

text \<open>
  \<open>_setElementVisibility\<close>. The host is the only parent the child ever gets, so
  \<open>this._element.parentElement\<close> is set exactly when the child's node is among the host's
  child nodes.
\<close>

definition setElementVisibility :: "bool \<Rightarrow> 'e HuiCard \<Rightarrow> 'e HuiCard" where
  "setElementVisibility visible this =
     (case element this of
        None \<Rightarrow> this
      | Some el \<Rightarrow>
          (let this1 =
                 (if hidden this \<noteq> (\<not> visible)
                  then fireEvent (card_visibility_changed visible)
                         (this\<lparr>display := (if visible then [] else ''none''),
                               hidden := \<not> visible\<rparr>)
                  else this)
           in if \<not> visible \<and> node el \<in> set (childNodes this1)
              then this1\<lparr>childNodes := removeAll (node el) (childNodes this1)\<rparr>
              else if visible \<and> node el \<notin> set (childNodes this1)
              then this1\<lparr>childNodes := childNodes this1 @ [node el]\<rparr>
              else this1))"

text \<open>\<open>!this.config?.visibility\<close>: an array, also an empty one, is truthy.\<close>

definition config_visibility :: "'e HuiCard \<Rightarrow> Condition list option" where
  "config_visibility this = (case config this of None \<Rightarrow> None | Some c \<Rightarrow> visibility c)"

definition updateVisibility :: "'e host_deps \<Rightarrow> bool option \<Rightarrow> 'e HuiCard \<Rightarrow> 'e HuiCard" where
  "updateVisibility env forceVisible this =
     (case element this of
        None \<Rightarrow> this
      | Some el \<Rightarrow>
          (case hass this of
             None \<Rightarrow> this
           | Some h \<Rightarrow>
               if element_hidden env (card el) then setElementVisibility False this
               else (let visible =
                           (truthy_bool forceVisible
                            \<or> preview this
                            \<or> (case config_visibility this of
                                  None \<Rightarrow> True
                                | Some conditions \<Rightarrow> checkConditionsMet env conditions h))
                     in setElementVisibility visible this)))"

definition updateElement :: "'e host_deps \<Rightarrow> LovelaceCardConfig \<Rightarrow> 'e HuiCard \<Rightarrow> 'e HuiCard outcome" where
  "updateElement env cfg this =
     (case element this of
        None \<Rightarrow> Returns this
      | Some el \<Rightarrow>
          sequence
            [on_element (\<lambda>c. element_setConfig env c cfg),
             (\<lambda>this. Returns (fireEvent card_updated (this\<lparr>elementConfig := Some cfg\<rparr>)))]
            this)"

text \<open>
  \<open>_loadElement\<close>. The three \<open>addEventListener\<close> calls arm the listeners on the new
  element; the \<open>while\<close> loop removes every child node of the host.
\<close>

definition loadElement :: "'e host_deps \<Rightarrow> LovelaceCardConfig \<Rightarrow> 'e HuiCard \<Rightarrow> 'e HuiCard outcome" where
  "loadElement env cfg this =
     sequence
       [(\<lambda>this. Returns (this
            \<lparr>element := Some \<lparr>node = allocated this, card = createCardElement env cfg,
                               ll_upgrade = False, ll_rebuild = None\<rparr>,
             elementConfig := Some cfg,
             allocated := allocated this + 1\<rparr>)),
        (\<lambda>this. case hass this of
                   Some h \<Rightarrow> on_element (\<lambda>c. set_hass env c h) this
                 | None \<Rightarrow> Returns this),
        (\<lambda>this. on_element (\<lambda>c. Returns (set_layout env c (layout this))) this),
        (\<lambda>this. on_element (\<lambda>c. set_preview env c (preview this)) this),
        (\<lambda>this. on_element (\<lambda>c. set_editMode env c (preview this)) this),
        (\<lambda>this. Returns (this
            \<lparr>element := map_option (\<lambda>el. el\<lparr>ll_upgrade := True, ll_rebuild := Some cfg\<rparr>)
                          (element this)\<rparr>)),
        (\<lambda>this. Returns (this\<lparr>childNodes := []\<rparr>)),
        (\<lambda>this. Returns (updateVisibility env None this))]
       this"

definition load :: "'e host_deps \<Rightarrow> 'e HuiCard \<Rightarrow> 'e HuiCard outcome" where
  "load env this =
     (case config this of
        None \<Rightarrow> Throws ''Cannot build card without config'' this
      | Some cfg \<Rightarrow> loadElement env cfg this)"

text \<open>The handlers of the events the child emits.\<close>

definition on_card_visibility_changed :: "'e host_deps \<Rightarrow> 'e HuiCard \<Rightarrow> 'e HuiCard" where
  "on_card_visibility_changed env this = updateVisibility env None this"

definition on_ll_upgrade :: "'e host_deps \<Rightarrow> 'e HuiCard \<Rightarrow> 'e HuiCard outcome" where
  "on_ll_upgrade env this =
     (case element this of
        None \<Rightarrow> Returns this
      | Some el \<Rightarrow>
          if \<not> ll_upgrade el then Returns this
          else sequence
                 [(\<lambda>this. Returns (this\<lparr>element := Some (el\<lparr>ll_upgrade := False\<rparr>)\<rparr>)),
                  (\<lambda>this. case hass this of
                             Some h \<Rightarrow> on_element (\<lambda>c. set_hass env c h) this
                           | None \<Rightarrow> Returns this),
                  (\<lambda>this. Returns (fireEvent card_updated this))]
                 this)"

definition on_ll_rebuild :: "'e host_deps \<Rightarrow> 'e HuiCard \<Rightarrow> 'e HuiCard outcome" where
  "on_ll_rebuild env this =
     (case element this of
        None \<Rightarrow> Returns this
      | Some el \<Rightarrow>
          (case ll_rebuild el of
             None \<Rightarrow> Returns this
           | Some cfg \<Rightarrow>
               sequence
                 [loadElement env cfg,
                  (\<lambda>this. Returns (fireEvent card_updated this))]
                 this))"

text \<open>\<open>this.config !== elementConfig\<close>, on object identity.\<close>

fun same_object :: "LovelaceCardConfig option \<Rightarrow> LovelaceCardConfig option \<Rightarrow> bool" where
  "same_object None None = True"
| "same_object (Some a) (Some b) = (object_id a = object_id b)"
| "same_object None (Some b) = False"
| "same_object (Some a) None = False"

text \<open>
  \<open>createErrorCardConfig(e.message, null)\<close> makes a new object, then \<open>_loadElement\<close>
  builds the error card from it.
\<close>

definition load_error_card :: "'e host_deps \<Rightarrow> string \<Rightarrow> 'e HuiCard \<Rightarrow> 'e HuiCard outcome" where
  "load_error_card env message this =
     loadElement env (createErrorCardConfig message (Made (allocated this)))
       (this\<lparr>allocated := allocated this + 1\<rparr>)"

text \<open>
  The blocks of \<open>update\<close>, one for each changed property, in the order of the source.
  \<open>changedProps\<close> is the set of names of the properties that changed, which is all the
  source asks of it; the calls to \<open>super\<close> touch nothing of the state kept here.
\<close>

definition update_config :: "'e host_deps \<Rightarrow> 'e HuiCard \<Rightarrow> 'e HuiCard outcome" where
  "update_config env this =
     (let elementConfig' = elementConfig this
      in case config this of
           None \<Rightarrow> Returns this
         | Some cfg \<Rightarrow>
             if \<not> same_object (config this) elementConfig'
             then (let typeChanged =
                         (Some (card_type cfg) \<noteq> map_option card_type elementConfig'
                          \<or> preview this)
                   in if typeChanged \<or> preview this then loadElement env cfg this
                      else updateElement env cfg this)
             else Returns this)"

definition update_hass :: "'e host_deps \<Rightarrow> 'e HuiCard \<Rightarrow> 'e HuiCard outcome" where
  "update_hass env this =
     try_catch
       (\<lambda>this. case hass this of
                  Some h \<Rightarrow> on_element (\<lambda>c. set_hass env c h) this
                | None \<Rightarrow> Returns this)
       (load_error_card env)
       this"

definition update_preview :: "'e host_deps \<Rightarrow> 'e HuiCard \<Rightarrow> 'e HuiCard outcome" where
  "update_preview env this =
     try_catch
       (sequence
          [(\<lambda>this. on_element (\<lambda>c. set_preview env c (preview this)) this),
           (\<lambda>this. on_element (\<lambda>c. set_editMode env c (preview this)) this)])
       (load_error_card env)
       this"

definition update_isPanel :: "'e host_deps \<Rightarrow> 'e HuiCard \<Rightarrow> 'e HuiCard outcome" where
  "update_isPanel env this = on_element (\<lambda>c. Returns (set_isPanel env c (isPanel this))) this"

definition update_layout :: "'e host_deps \<Rightarrow> 'e HuiCard \<Rightarrow> 'e HuiCard outcome" where
  "update_layout env this = on_element (\<lambda>c. Returns (set_layout env c (layout this))) this"

definition when_changed :: "string set \<Rightarrow> string \<Rightarrow> ('s \<Rightarrow> 's outcome) \<Rightarrow> 's \<Rightarrow> 's outcome" where
  "when_changed changedProps p block this = (if p \<in> changedProps then block this else Returns this)"

definition update :: "'e host_deps \<Rightarrow> string set \<Rightarrow> 'e HuiCard \<Rightarrow> 'e HuiCard outcome" where
  "update env changedProps this =
     sequence
       [(\<lambda>this. if element this \<noteq> None
                 then sequence
                        [when_changed changedProps ''config'' (update_config env),
                         when_changed changedProps ''hass'' (update_hass env),
                         when_changed changedProps ''preview'' (update_preview env),
                         when_changed changedProps ''isPanel'' (update_isPanel env),
                         when_changed changedProps ''layout'' (update_layout env)]
                        this
                 else Returns this),
        (\<lambda>this. Returns (if ''hass'' \<in> changedProps \<or> ''preview'' \<in> changedProps
                          then updateVisibility env None this else this))]
       this"

definition willUpdate :: "'e host_deps \<Rightarrow> string set \<Rightarrow> 'e HuiCard \<Rightarrow> 'e HuiCard outcome" where
  "willUpdate env changedProps this = (if element this = None then load env this else Returns this)"

text \<open>One reactive update cycle: \<open>willUpdate\<close>, then \<open>update\<close>.\<close>

definition performUpdate :: "'e host_deps \<Rightarrow> string set \<Rightarrow> 'e HuiCard \<Rightarrow> 'e HuiCard outcome" where
  "performUpdate env changedProps this =
     sequence [willUpdate env changedProps, update env changedProps] this"

text \<open>Each unsubscribe function takes its listener off the window.\<close>

definition clearMediaQueries :: "'e HuiCard \<Rightarrow> 'e HuiCard" where
  "clearMediaQueries this =
     this\<lparr>subscriptions := filter (\<lambda>s. handle s \<notin> set (listeners this)) (subscriptions this),
          listeners := []\<rparr>"

definition only_media_query :: "Condition list \<Rightarrow> bool" where
  "only_media_query conditions =
     (case conditions of
        [c] \<Rightarrow> condition c = ''screen'' \<and> truthy_string (media_query c)
      | _ \<Rightarrow> False)"

definition attach :: "'e host_deps \<Rightarrow> Condition list \<Rightarrow> 'e HuiCard \<Rightarrow> 'e HuiCard" where
  "attach env conditions this =
     (let queries = attachConditionMediaQueriesListeners env conditions;
          handles = [allocated this ..< allocated this + length queries]
      in this\<lparr>subscriptions := subscriptions this
                 @ map (\<lambda>(i, q). \<lparr>handle = i, query = q,
                                   hasOnlyMediaQuery = only_media_query conditions\<rparr>)
                     (zip handles queries),
              listeners := handles,
              allocated := allocated this + length queries\<rparr>)"

definition listenMediaQueries :: "'e host_deps \<Rightarrow> 'e HuiCard \<Rightarrow> 'e HuiCard" where
  "listenMediaQueries env this =
     (let this1 = clearMediaQueries this
      in case config_visibility this1 of
           None \<Rightarrow> this1
         | Some conditions \<Rightarrow> attach env conditions this1)"

text \<open>The callback of a registered listener, when its media query starts or stops matching.\<close>

definition on_media_query :: "'e host_deps \<Rightarrow> nat \<Rightarrow> bool \<Rightarrow> 'e HuiCard \<Rightarrow> 'e HuiCard" where
  "on_media_query env i matches this =
     (case find (\<lambda>s. handle s = i) (subscriptions this) of
        None \<Rightarrow> this
      | Some s \<Rightarrow> updateVisibility env (Some (hasOnlyMediaQuery s \<and> matches)) this)"


definition connectedCallback :: "'e host_deps \<Rightarrow> 'e HuiCard \<Rightarrow> 'e HuiCard" where
  "connectedCallback env this = updateVisibility env None (listenMediaQueries env this)"

definition getCardSize :: "'e host_deps \<Rightarrow> 'e HuiCard \<Rightarrow> nat" where
  "getCardSize env this =
     (case element this of
        Some el \<Rightarrow> computeCardSize env (card el)
      | None \<Rightarrow> 1)"

text \<open>\<open>this.config?.layout_options ?? {}\<close>\<close>

definition configOptions :: "'e HuiCard \<Rightarrow> LovelaceLayoutOptions" where
  "configOptions this =
     (case config this of
        None \<Rightarrow> Map.empty
      | Some c \<Rightarrow> (case layout_options c of None \<Rightarrow> Map.empty | Some opts \<Rightarrow> opts))"

text \<open>
  \<open>this._element.getLayoutOptions?.() ?? {}\<close>: the method may be missing, or return
  nothing.
\<close>

definition cardOptions :: "'e host_deps \<Rightarrow> 'e LovelaceCard \<Rightarrow> LovelaceLayoutOptions" where
  "cardOptions env el =
     (case element_getLayoutOptions env (card el) of
        None \<Rightarrow> Map.empty
      | Some opts \<Rightarrow> opts)"

text \<open>
  The spread \<open>{ ...cardOptions, ...configOptions }\<close> copies the keys of the first object,
  then those of the second over them: the map \<open>cardOptions ++ configOptions\<close>.
\<close>

definition getLayoutOptions :: "'e host_deps \<Rightarrow> 'e HuiCard \<Rightarrow> LovelaceLayoutOptions" where
  "getLayoutOptions env this =
     (case element this of
        Some el \<Rightarrow> cardOptions env el ++ configOptions this
      | None \<Rightarrow> configOptions this)"

definition getElementLayoutOptions :: "'e host_deps \<Rightarrow> 'e HuiCard \<Rightarrow> LovelaceLayoutOptions" where
  "getElementLayoutOptions env this =
     (case element this of
        None \<Rightarrow> Map.empty
      | Some el \<Rightarrow> cardOptions env el)"

subsection \<open>Notions used to state the properties\<close>

text \<open>
  A run of visibility evaluations: \<open>_setElementVisibility\<close> called with one computed value
  after the other.
\<close>

fun evaluations :: "bool list \<Rightarrow> 'e HuiCard \<Rightarrow> 'e HuiCard" where
  "evaluations [] this = this"
| "evaluations (v # vs) this = evaluations vs (setElementVisibility v this)"

text \<open>
  The changes in a sequence of values, the first compared with the value before the
  sequence: what "once per actual change" counts.
\<close>

fun transitions :: "bool \<Rightarrow> bool list \<Rightarrow> bool list" where
  "transitions previous [] = []"
| "transitions previous (v # vs) = (if v \<noteq> previous then [v] else []) @ transitions v vs"

text \<open>
  A card takes the properties the host assigns to a new element in \<open>_loadElement\<close>
  (\<open>hass\<close>, \<open>layout\<close>, \<open>preview\<close>, \<open>editMode\<close>) without throwing.
\<close>

definition accepts :: "'e host_deps \<Rightarrow> 'e HuiCard \<Rightarrow> 'e \<Rightarrow> bool" where
  "accepts env this c =
     (case (case hass this of Some h \<Rightarrow> set_hass env c h | None \<Rightarrow> Returns c) of
        Throws m c' \<Rightarrow> False
      | Returns c1 \<Rightarrow>
          (case set_preview env (set_layout env c1 (layout this)) (preview this) of
             Throws m c' \<Rightarrow> False
           | Returns c2 \<Rightarrow> returns (set_editMode env c2 (preview this))))"

section \<open>Sample inputs\<close>

text \<open>
  Concrete values on which the theorems below are exercised. The helpers of
  \<open>sample_deps\<close> do what the imported ones do on the entities used here: the domain is
  the text before the first dot, and an entity that is off or unavailable is not active.
\<close>

definition sample_deps :: tile_deps where
  "sample_deps =
     \<lparr>DOMAINS_TOGGLE = {''light'', ''switch'', ''fan''},
      computeDomain = takeWhile (\<lambda>c. c \<noteq> CHR ''.''),
      stateActive = (\<lambda>e. state e \<noteq> ''off'' \<and> state e \<noteq> ''unavailable''),
      computeCssColor = (\<lambda>c. ''var(--'' @ c @ ''-color)''),
      rgb2hsv = (\<lambda>c. c),
      hsv2rgb = (\<lambda>c. c),
      rgb2hex = (\<lambda>c. ''#ff0000''),
      stateColorCss = (\<lambda>e. None),
      hasAction = (\<lambda>a. case a of None \<Rightarrow> False | Some a \<Rightarrow> action a \<noteq> ''none''),
      cameraUrlWithWidthHeight = (\<lambda>u w h. u),
      renderTileBadge = (\<lambda>e h. Nothing)\<rparr>"

definition sample_config :: TileCardConfig where
  "sample_config =
     \<lparr>entity = Some ''light.kitchen'', name = None, hide_state = None, state_content = None,
      icon = None, color = Some ''red'', show_entity_picture = None, vertical = Some True,
      tap_action = Absent, hold_action = None, double_tap_action = None,
      icon_tap_action = Absent,
      features = Some [\<lparr>feature_type = ''light-brightness''\<rparr>]\<rparr>"

definition sample_tile :: HuiTileCard where
  "sample_tile = \<lparr>tile_hass = None, tile_config = None\<rparr>"

definition sample_light :: HassEntity where
  "sample_light =
     \<lparr>entity_id = ''light.kitchen'', state = ''on'',
      attributes = \<lparr>friendly_name = Some ''Kitchen'', rgb_color = Some (255, 0, 0),
                    entity_picture = None, entity_picture_local = None\<rparr>\<rparr>"

definition sample_light_off :: HassEntity where
  "sample_light_off = sample_light\<lparr>state := ''off''\<rparr>"

definition sample_hass :: HomeAssistant where
  "sample_hass =
     \<lparr>states = [''light.kitchen'' \<mapsto> sample_light],
      localize = (\<lambda>key. if key = ''ui.card.tile.not_found'' then ''Entity not found'' else key),
      hassUrl = (\<lambda>path. path)\<rparr>"

text \<open>
  A concrete card for the host to hold: it notes what it is told, reports itself hidden
  when its type is \<open>hidden\<close>, and its \<open>hass\<close> setter throws when its type is \<open>faulty\<close>.
\<close>

record sample_card =
  kind :: string
  received :: "string list"

definition sample_env :: "sample_card host_deps" where
  "sample_env =
     \<lparr>createCardElement = (\<lambda>cfg. \<lparr>kind = card_type cfg, received = []\<rparr>),
      element_setConfig = (\<lambda>c cfg. Returns (c\<lparr>received := received c @ [''setConfig'']\<rparr>)),
      set_hass = (\<lambda>c h. if kind c = ''faulty'' then Throws ''Cannot read state'' c
                          else Returns (c\<lparr>received := received c @ [''hass'']\<rparr>)),
      set_layout = (\<lambda>c l. c),
      set_preview = (\<lambda>c b. Returns c),
      set_editMode = (\<lambda>c b. Returns c),
      set_isPanel = (\<lambda>c b. c),
      element_hidden = (\<lambda>c. kind c = ''hidden''),
      element_getLayoutOptions =
        (\<lambda>c. Some [''grid_rows'' \<mapsto> Cells 2, ''grid_columns'' \<mapsto> Cells 4]),
      computeCardSize = (\<lambda>c. 3),
      checkConditionsMet = (\<lambda>conditions h. list_all (\<lambda>c. condition c = ''screen'') conditions),
      attachConditionMediaQueriesListeners =
        List.map_filter (\<lambda>c. if condition c = ''screen'' then media_query c else None)\<rparr>"

definition config_a :: LovelaceCardConfig where
  "config_a =
     \<lparr>object_id = Given 1, card_type = ''tile'',
      visibility = Some [\<lparr>condition = ''screen'', media_query = Some ''(min-width: 768px)'',
                          detail = []\<rparr>],
      layout_options = Some [''grid_rows'' \<mapsto> Cells 3],
      other = [(''entity'', ''light.kitchen'')]\<rparr>"

definition config_b :: LovelaceCardConfig where
  "config_b =
     \<lparr>object_id = Given 2, card_type = ''tile'', visibility = None, layout_options = None,
      other = [(''entity'', ''light.hall'')]\<rparr>"

definition config_c :: LovelaceCardConfig where
  "config_c =
     \<lparr>object_id = Given 3, card_type = ''button'', visibility = None, layout_options = None,
      other = [(''entity'', ''light.hall'')]\<rparr>"

definition sample_new :: "sample_card HuiCard" where
  "sample_new =
     \<lparr>preview = False, isPanel = False, config = Some config_a, hass = Some sample_hass,
      layout = None, elementConfig = None, element = None, listeners = [], hidden = False,
      display = [], childNodes = [], fired = [], subscriptions = [], allocated = 0\<rparr>"

definition sample_child :: "sample_card LovelaceCard" where
  "sample_child =
     \<lparr>node = 1, card = \<lparr>kind = ''tile'', received = [''hass'', ''hass'']\<rparr>,
      ll_upgrade = True, ll_rebuild = Some config_a\<rparr>"

definition sample_loaded :: "sample_card HuiCard" where
  "sample_loaded =
     \<lparr>preview = False, isPanel = False, config = Some config_a, hass = Some sample_hass,
      layout = None, elementConfig = Some config_a, element = Some sample_child,
      listeners = [0], hidden = False, display = [], childNodes = [1], fired = [],
      subscriptions = [\<lparr>handle = 0, query = ''(min-width: 768px)'', hasOnlyMediaQuery = True\<rparr>],
      allocated = 2\<rparr>"

definition sample_faulty :: "sample_card HuiCard" where
  "sample_faulty =
     sample_loaded\<lparr>element := Some (sample_child\<lparr>card := \<lparr>kind = ''faulty'', received = []\<rparr>\<rparr>)\<rparr>"


section \<open>Properties of the tile card\<close>

text \<open>
  C4. \<open>setConfig\<close> throws exactly when the configuration has no entity id (the key is
  missing or holds the empty string). Otherwise it stores the user's configuration spread
  over the defaults: every field the defaults do not name is the user's; \<open>tap_action\<close>
  is the user's own property when the key is there and \<open>more-info\<close> otherwise;
  \<open>icon_tap_action\<close> is the user's own property when the key is there, and otherwise
  \<open>toggle\<close> for an entity whose domain is in \<open>DOMAINS_TOGGLE\<close> or is one of button,
  input_button, scene, and \<open>more-info\<close> for any other domain.
\<close>

theorem setConfig_merges_over_defaults:
  "(isl (setConfig d cfg this) \<longleftrightarrow> \<not> truthy_string (entity cfg))
   \<and> (\<forall>e. entity cfg = Some e \<and> e \<noteq> [] \<longrightarrow>
        (\<exists>stored. setConfig d cfg this = Inr (this\<lparr>tile_config := Some stored\<rparr>)
           \<and> stored\<lparr>tap_action := tap_action cfg, icon_tap_action := icon_tap_action cfg\<rparr>
               = cfg
           \<and> (tap_action cfg = Absent \<longrightarrow>
                  tap_action stored = Present (Some \<lparr>action = ''more-info''\<rparr>))
           \<and> (icon_tap_action cfg = Absent \<longrightarrow>
                  icon_tap_action stored = Present (Some \<lparr>action =
                    (if computeDomain d e \<in> DOMAINS_TOGGLE d
                        \<or> computeDomain d e \<in> {''button'', ''input_button'', ''scene''}
                     then ''toggle'' else ''more-info'')\<rparr>))
           \<and> (\<forall>v. tap_action cfg = Present v \<longrightarrow> tap_action stored = Present v)
           \<and> (\<forall>v. icon_tap_action cfg = Present v \<longrightarrow>
                  icon_tap_action stored = Present v)))"
proof (intro conjI allI impI)
  show "isl (setConfig d cfg this) \<longleftrightarrow> \<not> truthy_string (entity cfg)"
    by (cases "entity cfg") (simp_all add: setConfig_def)
next
  fix e
  assume ent: "entity cfg = Some e \<and> e \<noteq> []"
  let ?st = "cfg
      \<lparr>tap_action := spread_over \<lparr>action = ''more-info''\<rparr> (tap_action cfg),
       icon_tap_action :=
         spread_over \<lparr>action = getEntityDefaultTileIconAction d e\<rparr> (icon_tap_action cfg)\<rparr>"
  have "setConfig d cfg this = Inr (this\<lparr>tile_config := Some ?st\<rparr>)"
    using ent by (simp add: setConfig_def)
  moreover have "?st\<lparr>tap_action := tap_action cfg, icon_tap_action := icon_tap_action cfg\<rparr>
                 = cfg"
    by simp
  moreover have "tap_action cfg = Absent \<longrightarrow>
                 tap_action ?st = Present (Some \<lparr>action = ''more-info''\<rparr>)"
    by simp
  moreover have "icon_tap_action cfg = Absent \<longrightarrow>
                 icon_tap_action ?st = Present (Some \<lparr>action =
                    (if computeDomain d e \<in> DOMAINS_TOGGLE d
                        \<or> computeDomain d e \<in> {''button'', ''input_button'', ''scene''}
                     then ''toggle'' else ''more-info'')\<rparr>)"
    by (simp add: getEntityDefaultTileIconAction_def)
  moreover have "\<forall>v. tap_action cfg = Present v \<longrightarrow> tap_action ?st = Present v"
    by simp
  moreover have "\<forall>v. icon_tap_action cfg = Present v \<longrightarrow> icon_tap_action ?st = Present v"
    by simp
  ultimately show "\<exists>stored. setConfig d cfg this = Inr (this\<lparr>tile_config := Some stored\<rparr>)
           \<and> stored\<lparr>tap_action := tap_action cfg, icon_tap_action := icon_tap_action cfg\<rparr>
               = cfg
           \<and> (tap_action cfg = Absent \<longrightarrow>
                  tap_action stored = Present (Some \<lparr>action = ''more-info''\<rparr>))
           \<and> (icon_tap_action cfg = Absent \<longrightarrow>
                  icon_tap_action stored = Present (Some \<lparr>action =
                    (if computeDomain d e \<in> DOMAINS_TOGGLE d
                        \<or> computeDomain d e \<in> {''button'', ''input_button'', ''scene''}
                     then ''toggle'' else ''more-info'')\<rparr>))
           \<and> (\<forall>v. tap_action cfg = Present v \<longrightarrow> tap_action stored = Present v)
           \<and> (\<forall>v. icon_tap_action cfg = Present v \<longrightarrow>
                  icon_tap_action stored = Present v)"
    by blast
qed

theorem setConfig_merges_over_defaults_witness:
  "\<exists>stored. setConfig sample_deps sample_config sample_tile
                      = Inr (sample_tile\<lparr>tile_config := Some stored\<rparr>)
              \<and> tap_action stored = Present (Some \<lparr>action = ''more-info''\<rparr>)
              \<and> icon_tap_action stored = Present (Some \<lparr>action = ''toggle''\<rparr>)"
proof -
  have ent: "entity sample_config = Some ''light.kitchen'' \<and> ''light.kitchen'' \<noteq> []"
    by (simp add: sample_config_def)
  have dom: "computeDomain sample_deps ''light.kitchen'' \<in> DOMAINS_TOGGLE sample_deps"
    by (simp add: sample_deps_def)
  have absent: "tap_action sample_config = Absent" "icon_tap_action sample_config = Absent"
    by (simp_all add: sample_config_def)
  from setConfig_merges_over_defaults [of sample_deps sample_config sample_tile] ent
  obtain stored where
    "setConfig sample_deps sample_config sample_tile = Inr (sample_tile\<lparr>tile_config := Some stored\<rparr>)"
    "tap_action sample_config = Absent \<longrightarrow>
       tap_action stored = Present (Some \<lparr>action = ''more-info''\<rparr>)"
    "icon_tap_action sample_config = Absent \<longrightarrow>
       icon_tap_action stored = Present (Some \<lparr>action =
         (if computeDomain sample_deps ''light.kitchen'' \<in> DOMAINS_TOGGLE sample_deps
             \<or> computeDomain sample_deps ''light.kitchen'' \<in> {''button'', ''input_button'', ''scene''}
          then ''toggle'' else ''more-info'')\<rparr>)"
    by blast
  with dom absent show ?thesis by auto
qed

text \<open>
  C6, as the code has it. With an override colour configured (a non-empty string), the
  tile's colour is the CSS colour of the override when the entity is active and no colour
  at all when it is not; the light's \<open>rgb_color\<close> is not consulted in either case.
\<close>

theorem override_color_when_active:
  "c \<noteq> [] \<Longrightarrow>
   computeStateColor d stateObj (Some c)
     = (if stateActive d stateObj then Some (computeCssColor d c) else None)"
  by (simp add: computeStateColor_def)

theorem override_color_when_active_witness:
  "computeStateColor sample_deps sample_light (Some ''red'') = Some ''var(--red-color)''
   \<and> computeStateColor sample_deps sample_light None = Some ''#ff0000''"
proof -
  have "stateActive sample_deps sample_light"
    by (simp add: sample_deps_def sample_light_def)
  moreover have "computeCssColor sample_deps ''red'' = ''var(--red-color)''"
    by (simp add: sample_deps_def)
  moreover have "computeStateColor sample_deps sample_light None = Some ''#ff0000''"
    by (simp add: computeStateColor_def sample_deps_def sample_light_def)
  ultimately show ?thesis
    using override_color_when_active [of "''red''" sample_deps sample_light] by simp
qed

text \<open>
  C6 as stated fails for a light that is off and still carries a saturated \<open>rgb_color\<close>:
  with the override \<open>red\<close> configured the tile gets no colour, not the override's.
\<close>

theorem override_color_inactive_counterexample:
  "computeDomain sample_deps (entity_id sample_light_off) = ''light''
   \<and> rgb_color (attributes sample_light_off) = Some (255, 0, 0)
   \<and> computeStateColor sample_deps sample_light_off (Some ''red'') = None
   \<and> computeStateColor sample_deps sample_light_off (Some ''red'')
        \<noteq> Some (computeCssColor sample_deps ''red'')"
  by (simp add: computeStateColor_def sample_deps_def sample_light_off_def sample_light_def)





section \<open>Properties of the card host\<close>

subsection \<open>What the methods keep and change\<close>

lemma on_element_node:
  "element this = Some el \<Longrightarrow>
   element (state_of (on_element f this)) = Some (el\<lparr>card := state_of (f (card el))\<rparr>)"
  by (cases "f (card el)") (simp_all add: on_element_def)

lemma setElementVisibility_element [simp]:
  "element (setElementVisibility v this) = element this"
  by (simp add: setElementVisibility_def fireEvent_def Let_def split: option.splits)

lemma setElementVisibility_allocated [simp]:
  "allocated (setElementVisibility v this) = allocated this"
  by (simp add: setElementVisibility_def fireEvent_def Let_def split: option.splits)

lemma setElementVisibility_elementConfig [simp]:
  "elementConfig (setElementVisibility v this) = elementConfig this"
  by (simp add: setElementVisibility_def fireEvent_def Let_def split: option.splits)

lemma setElementVisibility_subscriptions [simp]:
  "subscriptions (setElementVisibility v this) = subscriptions this"
  "listeners (setElementVisibility v this) = listeners this"
  "config (setElementVisibility v this) = config this"
  by (simp_all add: setElementVisibility_def fireEvent_def Let_def split: option.splits)

lemma updateVisibility_keeps [simp]:
  "element (updateVisibility env f this) = element this"
  "allocated (updateVisibility env f this) = allocated this"
  "elementConfig (updateVisibility env f this) = elementConfig this"
  "subscriptions (updateVisibility env f this) = subscriptions this"
  "listeners (updateVisibility env f this) = listeners this"
  "config (updateVisibility env f this) = config this"
  by (simp_all add: updateVisibility_def Let_def split: option.splits)

lemma setElementVisibility_hidden:
  "element this \<noteq> None \<Longrightarrow> hidden (setElementVisibility v this) = (\<not> v)"
  by (auto simp add: setElementVisibility_def fireEvent_def Let_def split: option.splits)

lemma setElementVisibility_fired:
  "element this \<noteq> None \<Longrightarrow>
   fired (setElementVisibility v this)
     = fired this @ (if v \<noteq> (\<not> hidden this) then [card_visibility_changed v] else [])"
  by (auto simp add: setElementVisibility_def fireEvent_def Let_def split: option.splits)

lemma setElementVisibility_attached:
  "element this = Some el \<Longrightarrow>
   node el \<in> set (childNodes (setElementVisibility v this)) \<longleftrightarrow> v"
  by (auto simp add: setElementVisibility_def fireEvent_def Let_def split: option.splits)

lemma setElementVisibility_childNodes:
  "element this = Some el \<Longrightarrow>
   set (childNodes (setElementVisibility v this)) \<subseteq> insert (node el) (set (childNodes this))"
  by (auto simp add: setElementVisibility_def fireEvent_def Let_def split: option.splits if_splits)

lemma updateVisibility_childNodes:
  "element this = Some el \<Longrightarrow>
   set (childNodes (updateVisibility env f this)) \<subseteq> insert (node el) (set (childNodes this))"
  using setElementVisibility_childNodes [of this el]
  by (auto simp add: updateVisibility_def Let_def split: option.splits)

lemma loadElement_state:
  "\<exists>el'. element (state_of (loadElement env cfg this)) = Some el'
         \<and> node el' = allocated this
         \<and> elementConfig (state_of (loadElement env cfg this)) = Some cfg
         \<and> allocated (state_of (loadElement env cfg this)) = allocated this + 1"
  by (auto simp add: loadElement_def on_element_def split: option.splits outcome.splits)

lemma loadElement_returns:
  "loadElement env cfg this = Returns s \<Longrightarrow>
   \<exists>s' el'. s = updateVisibility env None s' \<and> childNodes s' = []
            \<and> element s' = Some el' \<and> node el' = allocated this"
  by (force simp add: loadElement_def on_element_def split: option.splits outcome.splits)

lemma loadElement_childNodes:
  assumes "returns (loadElement env cfg this)"
  shows "set (childNodes (state_of (loadElement env cfg this))) \<subseteq> {allocated this}"
proof -
  from assms obtain s where s: "loadElement env cfg this = Returns s"
    by (cases "loadElement env cfg this") simp_all
  from loadElement_returns [OF s] obtain s' el'
    where "s = updateVisibility env None s'" "childNodes s' = []"
      "element s' = Some el'" "node el' = allocated this"
    by blast
  then show ?thesis
    using updateVisibility_childNodes [of s' el' env None] s by simp
qed

lemma loadElement_accepts:
  "returns (loadElement env cfg this) \<longleftrightarrow> accepts env this (createCardElement env cfg)"
  by (auto simp add: loadElement_def on_element_def accepts_def split: option.splits outcome.splits)

lemma updateElement_state:
  assumes "element this = Some el"
  shows "element (state_of (updateElement env cfg this))
           = Some (el\<lparr>card := state_of (element_setConfig env (card el) cfg)\<rparr>)
       \<and> allocated (state_of (updateElement env cfg this)) = allocated this
       \<and> childNodes (state_of (updateElement env cfg this)) = childNodes this
       \<and> returns (updateElement env cfg this) = returns (element_setConfig env (card el) cfg)
       \<and> (returns (element_setConfig env (card el) cfg) \<longrightarrow>
            elementConfig (state_of (updateElement env cfg this)) = Some cfg
            \<and> fired (state_of (updateElement env cfg this)) = fired this @ [card_updated])
       \<and> (\<not> returns (element_setConfig env (card el) cfg) \<longrightarrow>
            elementConfig (state_of (updateElement env cfg this)) = elementConfig this
            \<and> fired (state_of (updateElement env cfg this)) = fired this)"
  using assms
  by (cases "element_setConfig env (card el) cfg")
     (simp_all add: updateElement_def on_element_def fireEvent_def)

lemma update_only_config:
  assumes "element this \<noteq> None"
  shows "update env {''config''} this = update_config env this"
  using assms
  by (cases "update_config env this") (simp_all add: update_def when_changed_def)

lemma update_only_hass:
  assumes "element this \<noteq> None"
  shows "update env {''hass''} this =
           (case update_hass env this of
              Returns s \<Rightarrow> Returns (updateVisibility env None s)
            | Throws m s \<Rightarrow> Throws m s)"
  using assms
  by (cases "update_hass env this") (simp_all add: update_def when_changed_def)

lemma evaluations_element [simp]: "element (evaluations vs this) = element this"
  by (induction vs arbitrary: this) simp_all

lemma evaluations_snoc:
  "evaluations (vs @ [v]) this = setElementVisibility v (evaluations vs this)"
  by (induction vs arbitrary: this) simp_all

lemma evaluations_fired:
  "element this \<noteq> None \<Longrightarrow>
   fired (evaluations vs this)
     = fired this @ map card_visibility_changed (transitions (\<not> hidden this) vs)"
proof (induction vs arbitrary: this)
  case Nil
  then show ?case by simp
next
  case (Cons v vs)
  have el: "element (setElementVisibility v this) \<noteq> None"
    using Cons.prems by simp
  show ?case
    using Cons.IH [OF el] Cons.prems
    by (simp add: setElementVisibility_fired setElementVisibility_hidden)
qed



subsection \<open>The sample host\<close>

text \<open>
  \<open>sample_loaded\<close> is the state a new host with \<open>config_a\<close> and a state snapshot reaches
  once it is connected and has run its first update.
\<close>

lemma sample_connected:
  "connectedCallback sample_env sample_new
     = sample_new\<lparr>listeners := [0],
         subscriptions := [\<lparr>handle = 0, query = ''(min-width: 768px)'', hasOnlyMediaQuery = True\<rparr>],
         allocated := 1\<rparr>"
  by (simp add: connectedCallback_def listenMediaQueries_def clearMediaQueries_def attach_def
        updateVisibility_def config_visibility_def only_media_query_def sample_new_def
        sample_env_def config_a_def List.map_filter_def Let_def)

lemma sample_loaded_reached:
  "performUpdate sample_env {''config'', ''hass''} (connectedCallback sample_env sample_new)
     = Returns sample_loaded"
  unfolding sample_connected
  by (simp add: performUpdate_def willUpdate_def load_def loadElement_def update_def
        when_changed_def update_config_def update_hass_def try_catch_def on_element_def
        updateVisibility_def setElementVisibility_def config_visibility_def fireEvent_def
        sample_new_def sample_loaded_def sample_child_def sample_env_def config_a_def Let_def)

lemma sample_loaded_fields:
  "element sample_loaded = Some sample_child"
  "hass sample_loaded = Some sample_hass"
  "node sample_child < allocated sample_loaded"
  by (simp_all add: sample_loaded_def sample_child_def)

subsection \<open>Configuration changes\<close>

text \<open>
  C1. A host with a loaded child whose \<open>config\<close> property changed to a configuration
  object other than the child's current one: if the new type differs from the loaded
  configuration's type, or the host is in preview, \<open>update\<close> runs \<open>_loadElement\<close> on the
  new configuration, after which the host holds a new element (a node that did not exist
  before) under the new configuration, and the old child is no longer among the host's
  child nodes once the call has returned. Otherwise \<open>update\<close> runs \<open>_updateElement\<close>: the
  same element, having received \<open>setConfig\<close> with the new configuration, no element
  created, the child nodes untouched; when \<open>setConfig\<close> returns, the new configuration
  is recorded and \<open>card-updated\<close> is fired.
\<close>

theorem config_change_rebuilds_or_updates:
  assumes "element this = Some el" and "config this = Some cfg"
    and "\<not> same_object (config this) (elementConfig this)"
    and "node el < allocated this"
  shows "update env {''config''} this = update_config env this
       \<and> (Some (card_type cfg) \<noteq> map_option card_type (elementConfig this) \<or> preview this \<longrightarrow>
            update_config env this = loadElement env cfg this
            \<and> (\<exists>el'. element (state_of (update_config env this)) = Some el'
                    \<and> node el' = allocated this \<and> node el' \<noteq> node el)
            \<and> elementConfig (state_of (update_config env this)) = Some cfg
            \<and> (returns (update_config env this) \<longrightarrow>
                  node el \<notin> set (childNodes (state_of (update_config env this)))))
       \<and> (\<not> (Some (card_type cfg) \<noteq> map_option card_type (elementConfig this) \<or> preview this) \<longrightarrow>
            update_config env this = updateElement env cfg this
            \<and> element (state_of (update_config env this))
                = Some (el\<lparr>card := state_of (element_setConfig env (card el) cfg)\<rparr>)
            \<and> allocated (state_of (update_config env this)) = allocated this
            \<and> childNodes (state_of (update_config env this)) = childNodes this
            \<and> returns (update_config env this) = returns (element_setConfig env (card el) cfg)
            \<and> (returns (element_setConfig env (card el) cfg) \<longrightarrow>
                  elementConfig (state_of (update_config env this)) = Some cfg
                  \<and> fired (state_of (update_config env this)) = fired this @ [card_updated]))"
proof (intro conjI impI)
  show "update env {''config''} this = update_config env this"
    using assms(1) by (simp add: update_only_config)
next
  assume rebuild: "Some (card_type cfg) \<noteq> map_option card_type (elementConfig this) \<or> preview this"
  then show eq: "update_config env this = loadElement env cfg this"
    using assms by (auto simp add: update_config_def Let_def)
  from loadElement_state [of env cfg this] assms(4)
  show "\<exists>el'. element (state_of (update_config env this)) = Some el'
             \<and> node el' = allocated this \<and> node el' \<noteq> node el"
    unfolding eq by auto
  from loadElement_state [of env cfg this]
  show "elementConfig (state_of (update_config env this)) = Some cfg"
    unfolding eq by auto
  assume "returns (update_config env this)"
  then show "node el \<notin> set (childNodes (state_of (update_config env this)))"
    using loadElement_childNodes [of env cfg this] assms(4) unfolding eq by auto
next
  assume keep: "\<not> (Some (card_type cfg) \<noteq> map_option card_type (elementConfig this) \<or> preview this)"
  then show eq: "update_config env this = updateElement env cfg this"
    using assms by (auto simp add: update_config_def Let_def)
  note st = updateElement_state [OF assms(1), of env cfg]
  from st show "element (state_of (update_config env this))
                = Some (el\<lparr>card := state_of (element_setConfig env (card el) cfg)\<rparr>)"
    unfolding eq by blast
  from st show "allocated (state_of (update_config env this)) = allocated this"
    unfolding eq by blast
  from st show "childNodes (state_of (update_config env this)) = childNodes this"
    unfolding eq by blast
  from st show "returns (update_config env this) = returns (element_setConfig env (card el) cfg)"
    unfolding eq by blast
  assume "returns (element_setConfig env (card el) cfg)"
  with st show "elementConfig (state_of (update_config env this)) = Some cfg"
    unfolding eq by blast
  from st \<open>returns (element_setConfig env (card el) cfg)\<close>
  show "fired (state_of (update_config env this)) = fired this @ [card_updated]"
    unfolding eq by blast
qed

theorem config_change_rebuilds_or_updates_witness:
  "element (state_of (update sample_env {''config''} (sample_loaded\<lparr>config := Some config_b\<rparr>)))
     = Some (sample_child\<lparr>card := \<lparr>kind = ''tile'',
                                    received = [''hass'', ''hass'', ''setConfig'']\<rparr>\<rparr>)
   \<and> (\<exists>el'. element (state_of (update sample_env {''config''}
                                  (sample_loaded\<lparr>config := Some config_c\<rparr>))) = Some el'
            \<and> node el' = 2)"
proof -
  let ?b = "sample_loaded\<lparr>config := Some config_b\<rparr>"
  let ?c = "sample_loaded\<lparr>config := Some config_c\<rparr>"
  have el: "element ?b = Some sample_child" "element ?c = Some sample_child"
    and cfg: "config ?b = Some config_b" "config ?c = Some config_c"
    and new: "\<not> same_object (config ?b) (elementConfig ?b)"
             "\<not> same_object (config ?c) (elementConfig ?c)"
    and old: "node sample_child < allocated ?b" "node sample_child < allocated ?c"
    by (simp_all add: sample_loaded_def sample_child_def config_a_def config_b_def config_c_def)
  have same_type: "\<not> (Some (card_type config_b) \<noteq> map_option card_type (elementConfig ?b)
                      \<or> preview ?b)"
    and other_type: "Some (card_type config_c) \<noteq> map_option card_type (elementConfig ?c)
                      \<or> preview ?c"
    by (simp_all add: sample_loaded_def config_a_def config_b_def config_c_def)
  have told: "state_of (element_setConfig sample_env (card sample_child) config_b)
                = \<lparr>kind = ''tile'', received = [''hass'', ''hass'', ''setConfig'']\<rparr>"
    by (simp add: sample_env_def sample_child_def)
  from config_change_rebuilds_or_updates [OF el(1) cfg(1) new(1) old(1), of sample_env] same_type
  have "element (state_of (update sample_env {''config''} ?b))
          = Some (sample_child\<lparr>card := state_of (element_setConfig sample_env (card sample_child)
                                                    config_b)\<rparr>)"
    by metis
  moreover
  from config_change_rebuilds_or_updates [OF el(2) cfg(2) new(2) old(2), of sample_env] other_type
  have "\<exists>el'. element (state_of (update sample_env {''config''} ?c)) = Some el'
              \<and> node el' = allocated ?c"
    by metis
  moreover have "allocated ?c = 2" by (simp add: sample_loaded_def)
  ultimately show ?thesis using told by simp
qed

subsection \<open>State changes\<close>

text \<open>
  C5. A host with a loaded child and a state snapshot, when \<open>hass\<close> changed: if the
  child's setter returns, the child holds the new state. If it throws with message \<open>m\<close>,
  the host loads a new element from the error configuration made of \<open>m\<close> (type
  \<open>error\<close>, the message under \<open>error\<close>), which becomes the loaded configuration, and the
  element is no longer the old child. The exception ends there: provided the error card
  itself takes the host's properties, the block and the whole \<open>update\<close> return, and the
  old child is gone from the host's child nodes.
\<close>

theorem hass_change_pushes_or_replaces:
  assumes "element this = Some el" and "hass this = Some h" and "node el < allocated this"
  shows "(\<forall>c. set_hass env (card el) h = Returns c \<longrightarrow>
            update_hass env this = Returns (this\<lparr>element := Some (el\<lparr>card := c\<rparr>)\<rparr>)
            \<and> update env {''hass''} this
                = Returns (updateVisibility env None (this\<lparr>element := Some (el\<lparr>card := c\<rparr>)\<rparr>)))
       \<and> (\<forall>m c. set_hass env (card el) h = Throws m c \<longrightarrow>
            update_hass env this
              = loadElement env (createErrorCardConfig m (Made (allocated this)))
                  (this\<lparr>element := Some (el\<lparr>card := c\<rparr>), allocated := allocated this + 1\<rparr>)
            \<and> card_type (createErrorCardConfig m (Made (allocated this))) = ''error''
            \<and> other (createErrorCardConfig m (Made (allocated this))) = [(''error'', m)]
            \<and> elementConfig (state_of (update_hass env this))
                = Some (createErrorCardConfig m (Made (allocated this)))
            \<and> (\<exists>el'. element (state_of (update_hass env this)) = Some el' \<and> node el' \<noteq> node el)
            \<and> (accepts env this
                  (createCardElement env (createErrorCardConfig m (Made (allocated this)))) \<longrightarrow>
                  returns (update_hass env this) \<and> returns (update env {''hass''} this)
                  \<and> node el \<notin> set (childNodes (state_of (update_hass env this)))))"
proof (intro conjI allI impI)
  fix c
  assume ok: "set_hass env (card el) h = Returns c"
  then show pushed: "update_hass env this = Returns (this\<lparr>element := Some (el\<lparr>card := c\<rparr>)\<rparr>)"
    using assms by (simp add: update_hass_def try_catch_def on_element_def)
  show "update env {''hass''} this
          = Returns (updateVisibility env None (this\<lparr>element := Some (el\<lparr>card := c\<rparr>)\<rparr>))"
    using assms(1) by (simp add: update_only_hass pushed)
next
  fix m c
  assume thrown: "set_hass env (card el) h = Throws m c"
  let ?cfg = "createErrorCardConfig m (Made (allocated this))"
  let ?at = "this\<lparr>element := Some (el\<lparr>card := c\<rparr>), allocated := allocated this + 1\<rparr>"
  show eq: "update_hass env this = loadElement env ?cfg ?at"
    using assms thrown
    by (simp add: update_hass_def try_catch_def on_element_def load_error_card_def)
  show "card_type ?cfg = ''error''" and "other ?cfg = [(''error'', m)]"
    by (simp_all add: createErrorCardConfig_def)
  from loadElement_state [of env ?cfg ?at]
  show "elementConfig (state_of (update_hass env this)) = Some ?cfg"
    unfolding eq by auto
  from loadElement_state [of env ?cfg ?at] assms(3)
  show "\<exists>el'. element (state_of (update_hass env this)) = Some el' \<and> node el' \<noteq> node el"
    unfolding eq by auto
  assume "accepts env this (createCardElement env ?cfg)"
  then have "accepts env ?at (createCardElement env ?cfg)"
    by (auto simp add: accepts_def split: option.splits outcome.splits)
  then have ret: "returns (loadElement env ?cfg ?at)"
    by (simp add: loadElement_accepts)
  then show "returns (update_hass env this)"
    by (simp add: eq)
  then show "returns (update env {''hass''} this)"
    using assms(1) by (cases "update_hass env this") (simp_all add: update_only_hass)
  show "node el \<notin> set (childNodes (state_of (update_hass env this)))"
    using loadElement_childNodes [OF ret] assms(3) unfolding eq by auto
qed

theorem hass_change_pushes_or_replaces_witness:
  "returns (update sample_env {''hass''} sample_faulty)
   \<and> elementConfig (state_of (update_hass sample_env sample_faulty))
       = Some \<lparr>object_id = Made 2, card_type = ''error'', visibility = None,
                layout_options = None, other = [(''error'', ''Cannot read state'')]\<rparr>"
proof -
  let ?bad = "sample_child\<lparr>card := \<lparr>kind = ''faulty'', received = []\<rparr>\<rparr>"
  have el: "element sample_faulty = Some ?bad" and h: "hass sample_faulty = Some sample_hass"
    and old: "node ?bad < allocated sample_faulty"
    by (simp_all add: sample_faulty_def sample_loaded_def sample_child_def)
  have thrown: "set_hass sample_env (card ?bad) sample_hass
                  = Throws ''Cannot read state'' \<lparr>kind = ''faulty'', received = []\<rparr>"
    by (simp add: sample_env_def)
  have ok: "accepts sample_env sample_faulty
              (createCardElement sample_env
                 (createErrorCardConfig ''Cannot read state'' (Made (allocated sample_faulty))))"
    by (simp add: accepts_def sample_env_def sample_faulty_def sample_loaded_def
          createErrorCardConfig_def)
  have made: "createErrorCardConfig ''Cannot read state'' (Made (allocated sample_faulty))
                = \<lparr>object_id = Made 2, card_type = ''error'', visibility = None,
                   layout_options = None, other = [(''error'', ''Cannot read state'')]\<rparr>"
    by (simp add: createErrorCardConfig_def sample_faulty_def sample_loaded_def)
  from hass_change_pushes_or_replaces [OF el h old, of sample_env] thrown ok
  have "returns (update sample_env {''hass''} sample_faulty)
        \<and> elementConfig (state_of (update_hass sample_env sample_faulty))
            = Some (createErrorCardConfig ''Cannot read state'' (Made (allocated sample_faulty)))"
    by blast
  then show ?thesis by (simp only: made) 
qed

subsection \<open>Visibility\<close>



text \<open>
  C3. Over any sequence of visibility evaluations on a host with a loaded child, the
  \<open>card-visibility-changed\<close> events fired are exactly the changes of the computed value,
  one event for each, carrying the new value; the first value is compared with what the
  host shows before the sequence. An evaluation that leaves the host's \<open>hidden\<close> as it was
  fires nothing, one that changes it fires one event. After every evaluation the child is
  among the host's child nodes exactly when the value was visible.
\<close>

theorem visibility_changed_once_per_transition:
  assumes "element this = Some el"
  shows "fired (evaluations vs this)
           = fired this @ map card_visibility_changed (transitions (\<not> hidden this) vs)
         \<and> (hidden (setElementVisibility v this) = hidden this \<longrightarrow>
              fired (setElementVisibility v this) = fired this)
         \<and> (hidden (setElementVisibility v this) \<noteq> hidden this \<longrightarrow>
              fired (setElementVisibility v this) = fired this @ [card_visibility_changed v])
         \<and> (node el \<in> set (childNodes (evaluations (vs @ [v]) this)) \<longleftrightarrow> v)"
proof -
  have el: "element this \<noteq> None" using assms by simp
  have "element (evaluations vs this) = Some el" using assms by simp
  then have "node el \<in> set (childNodes (evaluations (vs @ [v]) this)) \<longleftrightarrow> v"
    by (simp add: evaluations_snoc setElementVisibility_attached)
  moreover have "hidden (setElementVisibility v this) = hidden this \<longrightarrow>
              fired (setElementVisibility v this) = fired this"
    using el by (auto simp add: setElementVisibility_fired setElementVisibility_hidden)
  moreover have "hidden (setElementVisibility v this) \<noteq> hidden this \<longrightarrow>
              fired (setElementVisibility v this) = fired this @ [card_visibility_changed v]"
    using el by (auto simp add: setElementVisibility_fired setElementVisibility_hidden)
  ultimately show ?thesis using evaluations_fired [OF el] by blast
qed

theorem visibility_changed_once_per_transition_witness:
  "fired (evaluations [False, False, True, True, False] sample_loaded)
     = [card_visibility_changed False, card_visibility_changed True, card_visibility_changed False]
   \<and> 1 \<notin> set (childNodes (evaluations [False, False, True, True, False] sample_loaded))"
proof -
  have start: "fired sample_loaded = []" "\<not> hidden sample_loaded" "node sample_child = 1"
    by (simp_all add: sample_loaded_def sample_child_def)
  from visibility_changed_once_per_transition
         [OF sample_loaded_fields(1), of "[False, False, True, True, False]" False]
  have "fired (evaluations [False, False, True, True, False] sample_loaded)
          = fired sample_loaded
            @ map card_visibility_changed
                (transitions (\<not> hidden sample_loaded) [False, False, True, True, False])"
    by blast
  moreover
  from visibility_changed_once_per_transition
         [OF sample_loaded_fields(1), of "[False, False, True, True]" False]
  have "node sample_child \<notin> set (childNodes (evaluations ([False, False, True, True] @ [False])
          sample_loaded))"
    by blast
  ultimately show ?thesis using start by simp
qed

subsection \<open>Media-query listeners\<close>




subsection \<open>Layout options and size\<close>

text \<open>
  C9. With a child loaded, \<open>getLayoutOptions\<close> is the child's layout options overridden
  by the configuration's \<open>layout_options\<close>: a key the configuration has takes the
  configuration's value, any other key the child's.
\<close>

theorem layout_options_override:
  assumes "element this = Some el"
  shows "getLayoutOptions env this = cardOptions env el ++ configOptions this
       \<and> (\<forall>k v. configOptions this k = Some v \<longrightarrow> getLayoutOptions env this k = Some v)
       \<and> (\<forall>k. configOptions this k = None \<longrightarrow>
              getLayoutOptions env this k = cardOptions env el k)"
  using assms by (auto simp add: getLayoutOptions_def map_add_def split: option.splits)

theorem layout_options_override_witness:
  "getLayoutOptions sample_env sample_loaded ''grid_rows'' = Some (Cells 3)
   \<and> getLayoutOptions sample_env sample_loaded ''grid_columns'' = Some (Cells 4)"
proof -
  have rows: "configOptions sample_loaded ''grid_rows'' = Some (Cells 3)"
    and columns: "configOptions sample_loaded ''grid_columns'' = None"
    by (simp_all add: configOptions_def sample_loaded_def config_a_def)
  have card: "cardOptions sample_env sample_child ''grid_columns'' = Some (Cells 4)"
    by (simp add: cardOptions_def sample_env_def)
  from layout_options_override [OF sample_loaded_fields(1), of sample_env]
  have config_wins: "\<forall>k v. configOptions sample_loaded k = Some v \<longrightarrow>
                       getLayoutOptions sample_env sample_loaded k = Some v"
    and card_else: "\<forall>k. configOptions sample_loaded k = None \<longrightarrow>
                       getLayoutOptions sample_env sample_loaded k
                         = cardOptions sample_env sample_child k"
    by blast+
  from config_wins rows have "getLayoutOptions sample_env sample_loaded ''grid_rows'' = Some (Cells 3)"
    by blast
  moreover from card_else columns card
  have "getLayoutOptions sample_env sample_loaded ''grid_columns'' = Some (Cells 4)"
    by simp
  ultimately show ?thesis by blast
qed

text \<open>
  C10. A host without a child reports size 1. A tile card reports 1, plus 1 when its
  configuration has \<open>vertical\<close> set, plus the number of configured features (1 when it has
  no configuration), so never less than 1.
\<close>

theorem card_size:
  "(element this = None \<longrightarrow> getCardSize env this = 1)
   \<and> tile_getCardSize \<lparr>tile_hass = h, tile_config = Some cfg\<rparr>
       = 1 + (if vertical cfg = Some True then 1 else 0)
           + (case features cfg of None \<Rightarrow> 0 | Some fs \<Rightarrow> length fs)
   \<and> tile_getCardSize \<lparr>tile_hass = h, tile_config = None\<rparr> = 1
   \<and> 1 \<le> tile_getCardSize t"
  by (cases "vertical cfg")
     (simp_all add: getCardSize_def tile_getCardSize_def config_vertical_def features_length_def)

theorem card_size_witness:
  "getCardSize sample_env sample_new = 1
   \<and> tile_getCardSize \<lparr>tile_hass = None, tile_config = Some sample_config\<rparr> = 3"
proof -
  have "element sample_new = None" by (simp add: sample_new_def)
  moreover have "vertical sample_config = Some True"
    and "features sample_config = Some [\<lparr>feature_type = ''light-brightness''\<rparr>]"
    by (simp_all add: sample_config_def)
  ultimately show ?thesis
    using card_size [of sample_new sample_env None sample_config sample_tile] by simp
qed

end
